theory Spec2Isabelle
  imports Main
begin

section \<open>The framed peer-stream wrapper (packages/pubsub/src/peer-streams.ts)\<close>

text \<open>
  \<^verbatim>\<open>PeerStreams\<close> is a class with mutable fields that dispatches events. The model is a
  record of its fields, extended by three traces of the effects the methods have on the
  outside world: the events dispatched, the raw streams whose \<^verbatim>\<open>closeWrite\<close> was called,
  and the pushables whose \<^verbatim>\<open>end\<close> was called. Every method takes the record and
  returns the updated one; \<^verbatim>\<open>write\<close>, which can throw, returns a sum.
\<close>

type_synonym bytes = string

type_synonym peer_id = bytes

text \<open>A raw \<^verbatim>\<open>Stream\<close> of the connection layer is opaque to the wrapper: a handle.\<close>

type_synonym stream = nat

text \<open>\<^verbatim>\<open>Uint8Array | Uint8ArrayList\<close>, the argument type of \<^verbatim>\<open>write\<close>.\<close>

datatype payload = Uint8Array bytes | Uint8ArrayList "bytes list"

text \<open>
  A \<^verbatim>\<open>Pushable<Uint8ArrayList>\<close> in object mode: the values pushed so far, in order.
\<close>

record pushable =
  buffer :: "bytes list list"

text \<open>
  The iterable built by \<^verbatim>\<open>abortableSource(pipe(raw, lp.decode), signal, { returnOnAbort })\<close>:
  the raw stream it reads and the option it was built with. Its signal is the one
  \<^verbatim>\<open>_inboundAbortController\<close> of the wrapper, the field \<open>aborted\<close> below.
\<close>

record abortable =
  source :: stream
  returnOnAbort :: bool

datatype peer_stream_event = StreamInbound | StreamOutbound | Close

datatype error = Error string | AbortError

record peer_streams =
  peerId :: peer_id
  protocol :: string
  outboundStream :: "pushable option"
  inboundStream :: "abortable option"
  rawOutboundStream :: "stream option"
  rawInboundStream :: "stream option"
  aborted :: bool
  closed :: bool
  events :: "peer_stream_event list"
  closeWrites :: "stream list"
  endedStreams :: "pushable list"

text \<open>The constructor.\<close>

definition PeerStreams :: "peer_id \<Rightarrow> string \<Rightarrow> peer_streams" where
  "PeerStreams i p =
     \<lparr> peerId = i, protocol = p, outboundStream = None, inboundStream = None,
       rawOutboundStream = None, rawInboundStream = None, aborted = False, closed = False,
       events = [], closeWrites = [], endedStreams = [] \<rparr>"

definition dispatchEvent :: "peer_stream_event \<Rightarrow> peer_streams \<Rightarrow> peer_streams" where
  "dispatchEvent e s = s\<lparr>events := events s @ [e]\<rparr>"

definition isReadable :: "peer_streams \<Rightarrow> bool" where
  "isReadable s = (inboundStream s \<noteq> None)"

definition isWritable :: "peer_streams \<Rightarrow> bool" where
  "isWritable s = (outboundStream s \<noteq> None)"

text \<open>\<^verbatim>\<open>pushable.push(value)\<close> appends to the queue.\<close>

definition push :: "bytes list \<Rightarrow> pushable \<Rightarrow> pushable" where
  "push v p = p\<lparr>buffer := buffer p @ [v]\<rparr>"

text \<open>\<^verbatim>\<open>data instanceof Uint8Array ? new Uint8ArrayList(data) : data\<close>\<close>

definition toUint8ArrayList :: "payload \<Rightarrow> bytes list" where
  "toUint8ArrayList d = (case d of Uint8Array b \<Rightarrow> [b] | Uint8ArrayList l \<Rightarrow> l)"

definition write_ps :: "peer_streams \<Rightarrow> payload \<Rightarrow> error + peer_streams" where
  "write_ps s d =
     (case outboundStream s of
        None \<Rightarrow> Inl (Error (''No writable connection to '' @ peerId s))
      | Some p \<Rightarrow> Inr (s\<lparr>outboundStream := Some (push (toUint8ArrayList d) p)\<rparr>))"

text \<open>
  The \<^verbatim>\<open>onEnd\<close> callback that \<^verbatim>\<open>attachOutboundStream\<close> gives to its pushable
  (lines 121 to 135). It reads the fields of the wrapper at the time it runs. The rejected
  promise of \<^verbatim>\<open>closeWrite\<close> is only logged.
\<close>

definition onEnd :: "error option \<Rightarrow> peer_streams \<Rightarrow> peer_streams" where
  "onEnd shouldEmit s =
     (let s1 = (case rawOutboundStream s of
                  Some r \<Rightarrow> s\<lparr>closeWrites := closeWrites s @ [r]\<rparr>
                | None \<Rightarrow> s);
          s2 = s1\<lparr>rawOutboundStream := None\<rparr>;
          s3 = s2\<lparr>outboundStream := None\<rparr>
      in if shouldEmit \<noteq> None then dispatchEvent Close s3 else s3)"

text \<open>
  Modelled from the spec: the it-pushable library is not among the sources. This is
  \<^verbatim>\<open>pushable.end(err?)\<close> for the pushable \<open>p\<close> that the wrapper holds: the pushable is
  marked as ended and its \<^verbatim>\<open>onEnd\<close> callback runs, once, with the argument of
  \<^verbatim>\<open>end\<close>, so that an end closes the write half of the underlying stream and an end
  without argument fires no close event (section 4.A, and the comment at line 114). The
  iterator protocol's \<^verbatim>\<open>return()\<close> and \<^verbatim>\<open>throw(err)\<close> run the callback in the same
  way, with no argument and with the error.
\<close>

definition end_pushable :: "pushable \<Rightarrow> error option \<Rightarrow> peer_streams \<Rightarrow> peer_streams" where
  "end_pushable p err s = onEnd err (s\<lparr>endedStreams := endedStreams s @ [p]\<rparr>)"

text \<open>
  The outbound pushable ending from outside the wrapper (the consumer of the pipe returns
  or throws, or a holder of the public field calls \<^verbatim>\<open>end\<close>): nothing happens when no
  pushable is attached, since an ended pushable has been dropped from the field.
\<close>

definition outbound_ends :: "error option \<Rightarrow> peer_streams \<Rightarrow> peer_streams" where
  "outbound_ends err s =
     (case outboundStream s of None \<Rightarrow> s | Some p \<Rightarrow> end_pushable p err s)"

definition attachInboundStream :: "peer_streams \<Rightarrow> stream \<Rightarrow> abortable \<times> peer_streams" where
  "attachInboundStream s strm =
     (let s1 = s\<lparr>rawInboundStream := Some strm\<rparr>;
          it = \<lparr> source = strm, returnOnAbort = True \<rparr>;
          s2 = s1\<lparr>inboundStream := Some it\<rparr>;
          s3 = dispatchEvent StreamInbound s2
      in (it, s3))"

text \<open>
  The \<^verbatim>\<open>pipe\<close> from the new pushable through \<^verbatim>\<open>lp.encode\<close> into the raw stream runs
  in the background and changes no field; its failure is logged.
\<close>

definition attachOutboundStream :: "peer_streams \<Rightarrow> stream \<Rightarrow> pushable \<times> peer_streams" where
  "attachOutboundStream s strm =
     (let prevStream = outboundStream s;
          s1 = (case outboundStream s of
                  Some p \<Rightarrow> end_pushable p None s
                | None \<Rightarrow> s);
          s2 = s1\<lparr>rawOutboundStream := Some strm\<rparr>;
          new = \<lparr> buffer = [] \<rparr>;
          s3 = s2\<lparr>outboundStream := Some new\<rparr>;
          s4 = (if prevStream = None then dispatchEvent StreamOutbound s3 else s3)
      in (new, s4))"

text \<open>\<^verbatim>\<open>this._inboundAbortController.abort()\<close>\<close>

definition abort :: "peer_streams \<Rightarrow> peer_streams" where
  "abort s = s\<lparr>aborted := True\<rparr>"

definition close :: "peer_streams \<Rightarrow> peer_streams" where
  "close s =
     (if closed s then s
      else
        let s1 = s\<lparr>closed := True\<rparr>;
            s2 = (case outboundStream s1 of
                    Some p \<Rightarrow> end_pushable p None s1
                  | None \<Rightarrow> s1);
            s3 = (if inboundStream s2 \<noteq> None then abort s2 else s2);
            s4 = s3\<lparr>rawOutboundStream := None\<rparr>;
            s5 = s4\<lparr>outboundStream := None\<rparr>;
            s6 = s5\<lparr>rawInboundStream := None\<rparr>;
            s7 = s6\<lparr>inboundStream := None\<rparr>
        in dispatchEvent Close s7)"

text \<open>
  Modelled from the spec: the abortable-iterator library is not among the sources. This
  is one step of the iterable that \<^verbatim>\<open>abortableSource\<close> returns, where \<open>nxt\<close> is what the
  wrapped source would deliver next. Once the signal has fired, the iterable completes
  normally when it was built with \<^verbatim>\<open>returnOnAbort: true\<close> (section 4.A; "set to only
  return on abort, rather than throw", line 91) and throws an \<^verbatim>\<open>AbortError\<close> otherwise;
  before that it passes on what the source delivers.
\<close>

datatype 'a iter_result = Yield 'a | Done | Throw error

definition abortable_next :: "bool \<Rightarrow> abortable \<Rightarrow> 'a iter_result \<Rightarrow> 'a iter_result" where
  "abortable_next sig it nxt =
     (if sig then (if returnOnAbort it then Done else Throw AbortError) else nxt)"

text \<open>
  Pulling the next item from an inbound iterable \<open>it\<close> while the wrapper is in state
  \<open>s\<close>: the signal the iterable watches is the wrapper's own abort controller.
\<close>

definition inbound_next :: "peer_streams \<Rightarrow> abortable \<Rightarrow> 'a iter_result \<Rightarrow> 'a iter_result" where
  "inbound_next s it nxt = abortable_next (aborted s) it nxt"

section \<open>The circuit relay HOP service\<close>

text \<open>
  The sources hold the test of the HOP protocol (packages/libp2p/test/circuit-relay/hop.spec.ts)
  but not the service it drives: the reservation store and the HOP handler are imported
  by the test from \<^verbatim>\<open>src/circuit-relay\<close>. They are modelled here from the specification,
  sections 3, 4.B, 4.C, 4.D, 4.E, 4.G and 6. Instants and sizes are natural numbers: unix
  seconds and byte counts stay far below the 64 bits of the wire format.
\<close>

datatype status =
  OK | RESERVATION_REFUSED | PERMISSION_DENIED | RESOURCE_LIMIT_EXCEEDED |
  NO_RESERVATION | MALFORMED_MESSAGE | UNEXPECTED_MESSAGE | CONNECTION_FAILED

text \<open>
  Modelled from the spec: a Multiaddr, by its decomposed form, the protocol components
  of section 3.
\<close>

datatype component = Ip4 string | Ip6 string | Dns string | Tcp nat | P2p peer_id | P2pCircuit

type_synonym multiaddr = "component list"

text \<open>Modelled from the spec: Limit; zero on a field means unbounded on that axis.\<close>

record limit =
  data :: nat
  duration :: nat

text \<open>Modelled from the spec: the Reservation record of the store.\<close>

record reservation =
  peer :: peer_id
  expire :: nat
  addrs :: "multiaddr list"
  limit :: limit
  createdAt :: nat

text \<open>
  Modelled from the spec: the ReservationStore, an ordered mapping from PeerId to
  Reservation that preserves insertion order.
\<close>

type_synonym reservation_store = "(peer_id \<times> reservation) list"

text \<open>
  Modelled from the spec: the configuration of a relay, the options that the store of
  section 4.B and the handler of section 4.D read.
\<close>

record config =
  maxReservations :: nat
  reservationTtl :: nat
  defaultDataLimit :: nat
  defaultDurationLimit :: nat
  handshakeTimeout :: nat

text \<open>Modelled from the spec: the defaults; two hours in seconds, \<open>1 << 17\<close> bytes.\<close>

definition defaults :: config where
  "defaults =
     \<lparr> maxReservations = 15, reservationTtl = 7200, defaultDataLimit = 131072,
       defaultDurationLimit = 120, handshakeTimeout = 30 \<rparr>"

text \<open>
  Modelled from the spec: the limit a relay hands out, the configured pair of
  \<^verbatim>\<open>defaultDataLimit\<close> and \<^verbatim>\<open>defaultDurationLimit\<close> (section 4.D, step 2 of the RESERVE
  branch).
\<close>

definition configured_limit :: "config \<Rightarrow> limit" where
  "configured_limit cfg =
     \<lparr> data = defaultDataLimit cfg, duration = defaultDurationLimit cfg \<rparr>"

text \<open>Modelled from the spec: the entry that a reserve at instant \<open>now\<close> stores.\<close>

definition fresh :: "config \<Rightarrow> nat \<Rightarrow> peer_id \<Rightarrow> multiaddr list \<Rightarrow> reservation" where
  "fresh cfg now p a =
     \<lparr> peer = p, expire = now + reservationTtl cfg, addrs = a,
       limit = configured_limit cfg, createdAt = now \<rparr>"

text \<open>Modelled from the spec: overwriting the entry of a peer, which keeps its position.\<close>

fun overwrite :: "peer_id \<Rightarrow> reservation \<Rightarrow> reservation_store \<Rightarrow> reservation_store" where
  "overwrite p r [] = []"
| "overwrite p r ((q, x) # st) = (if q = p then (q, r) # st else (q, x) # overwrite p r st)"

text \<open>
  Modelled from the spec: \<^verbatim>\<open>reserve(peer, addrs)\<close> of section 4.B, its three steps in
  order. A success carries the \<^verbatim>\<open>refreshed\<close> flag, the entry stored and the updated
  store; a failure leaves the store as it is.
\<close>

definition reserve ::
  "config \<Rightarrow> nat \<Rightarrow> reservation_store \<Rightarrow> peer_id \<Rightarrow> multiaddr list \<Rightarrow>
   status + (bool \<times> reservation \<times> reservation_store)" where
  "reserve cfg now st p a =
     (if map_of st p \<noteq> None then Inr (True, fresh cfg now p a, overwrite p (fresh cfg now p a) st)
      else if length st < maxReservations cfg
      then Inr (False, fresh cfg now p a, st @ [(p, fresh cfg now p a)])
      else Inl RESOURCE_LIMIT_EXCEEDED)"

text \<open>Modelled from the spec: \<^verbatim>\<open>get(peer)\<close>, present iff not expired.\<close>

definition get :: "reservation_store \<Rightarrow> nat \<Rightarrow> peer_id \<Rightarrow> reservation option" where
  "get st now p =
     (case map_of st p of
        None \<Rightarrow> None
      | Some r \<Rightarrow> if now < expire r then Some r else None)"

text \<open>Modelled from the spec: \<^verbatim>\<open>remove(peer)\<close>, the explicit drop.\<close>

definition remove :: "reservation_store \<Rightarrow> peer_id \<Rightarrow> reservation_store" where
  "remove st p = filter (\<lambda>(q, r). q \<noteq> p) st"

text \<open>
  Modelled from the spec: the background expiry, which drops the entries whose
  \<open>expire \<le> now\<close>.
\<close>

definition expiry :: "reservation_store \<Rightarrow> nat \<Rightarrow> reservation_store" where
  "expiry st now = filter (\<lambda>(q, r). now < expire r) st"

subsection \<open>Authorization hooks\<close>

text \<open>
  Modelled from the spec: the connection gater, a bundle of optional predicates
  (section 4.C).
\<close>

record connection_gater =
  denyInboundRelayReservation :: "(peer_id \<Rightarrow> bool) option"
  denyOutboundRelayedConnection :: "(peer_id \<times> peer_id \<Rightarrow> bool) option"
  denyInboundRelayedConnection :: "(peer_id \<times> peer_id \<Rightarrow> bool) option"

text \<open>
  Modelled from the spec: a predicate that is unset or returns false permits; only a
  returned true denies.
\<close>

definition denies :: "('a \<Rightarrow> bool) option \<Rightarrow> 'a \<Rightarrow> bool" where
  "denies pred x = (case pred of None \<Rightarrow> False | Some f \<Rightarrow> f x)"

subsection \<open>Messages\<close>

datatype hop_type = RESERVE | CONNECT | STATUS

text \<open>Modelled from the spec: the \<^verbatim>\<open>peer\<close> field of a CONNECT, as it is on the wire.\<close>

record pb_peer =
  pb_id :: "bytes option"
  pb_addrs :: "multiaddr list"

text \<open>Modelled from the spec: the \<^verbatim>\<open>reservation\<close> field of a STATUS reply.\<close>

record pb_reservation =
  pb_expire :: nat
  pb_reservation_addrs :: "multiaddr list"
  voucher :: "bytes option"

text \<open>
  Modelled from the spec: a HopMessage as read from the wire, every field optional
  (section 6). A \<^verbatim>\<open>type\<close> that is absent or not one of the three known values is \<open>None\<close>.
\<close>

record hop_message =
  msg_type :: "hop_type option"
  msg_peer :: "pb_peer option"
  msg_reservation :: "pb_reservation option"
  msg_limit :: "limit option"
  msg_status :: "status option"

text \<open>Modelled from the spec: the StopMessage tagged union.\<close>

datatype stop_message = STOP_CONNECT pb_peer "limit option" | STOP_STATUS status

text \<open>Modelled from the spec: a STATUS reply that carries only its status code.\<close>

definition status_reply :: "status \<Rightarrow> hop_message" where
  "status_reply st =
     \<lparr> msg_type = Some STATUS, msg_peer = None, msg_reservation = None, msg_limit = None,
       msg_status = Some st \<rparr>"

subsection \<open>The relay and its host\<close>

type_synonym connection = nat

text \<open>
  Modelled from the spec: the relay service with the host interfaces it consumes
  (section 6): its own identity, its configuration, the gater, the address manager's
  addresses, the decoder of a PeerId from bytes (\<open>None\<close> for bytes that are no PeerId), the
  connection manager's \<^verbatim>\<open>openConnection\<close> and \<^verbatim>\<open>newStream\<close> (\<open>None\<close> for a failure), what
  the target answers on a STOP stream (\<open>None\<close> for a timeout or a stream error), and a
  ceiling on the limit of relayed connections if one is configured.
\<close>

record relay =
  self :: peer_id
  init :: config
  connectionGater :: connection_gater
  getAddresses :: "multiaddr list"
  peerIdFromBytes :: "bytes \<Rightarrow> peer_id option"
  openConnection :: "peer_id \<Rightarrow> multiaddr list \<Rightarrow> connection option"
  newStream :: "connection \<Rightarrow> string \<Rightarrow> stream option"
  stopExchange :: "stream \<Rightarrow> stop_message \<Rightarrow> stop_message option"
  limitCeiling :: "limit option"

text \<open>
  Modelled from the spec: the mutable state of the service, the reservation store, and
  two traces of what it asked of its host: the tags merged into the peer store (peer, tag
  name, value, ttl in milliseconds) and the STOP dials made (source, target).
\<close>

record relay_state =
  reservations :: reservation_store
  tags :: "(peer_id \<times> string \<times> nat \<times> nat) list"
  stopDials :: "(peer_id \<times> peer_id) list"

text \<open>Modelled from the spec: how the handler leaves its stream.\<close>

datatype outcome = Closed | Relaying stream limit

definition RELAY_V2_STOP_CODEC :: string where
  "RELAY_V2_STOP_CODEC = ''/libp2p/circuit/relay/0.2.0/stop''"

definition RELAY_SOURCE_TAG :: string where
  "RELAY_SOURCE_TAG = ''relay-source''"

text \<open>
  Modelled from the spec: the STOP dialer of section 4.E. Only a STATUS OK from the target
  is a success and gives the opened stream.
\<close>

definition stop_dial ::
  "relay \<Rightarrow> peer_id \<Rightarrow> peer_id \<Rightarrow> multiaddr list \<Rightarrow> limit \<Rightarrow> stream option" where
  "stop_dial R src target a lim =
     (case openConnection R target a of
        None \<Rightarrow> None
      | Some c \<Rightarrow>
          (case newStream R c RELAY_V2_STOP_CODEC of
             None \<Rightarrow> None
           | Some strm \<Rightarrow>
               (case stopExchange R strm
                       (STOP_CONNECT \<lparr> pb_id = Some src, pb_addrs = [] \<rparr> (Some lim)) of
                  Some (STOP_STATUS OK) \<Rightarrow> Some strm
                | _ \<Rightarrow> None)))"

text \<open>
  Modelled from the spec: the target side accepting a STOP CONNECT consults
  \<^verbatim>\<open>denyInboundRelayedConnection(source, target)\<close>.
\<close>

definition stop_accept :: "connection_gater \<Rightarrow> peer_id \<Rightarrow> peer_id \<Rightarrow> stop_message" where
  "stop_accept g src target =
     (if denies (denyInboundRelayedConnection g) (src, target)
      then STOP_STATUS PERMISSION_DENIED else STOP_STATUS OK)"

text \<open>Modelled from the spec: the peer tagger of section 4.G, best effort.\<close>

definition tag :: "peer_id \<Rightarrow> string \<Rightarrow> nat \<Rightarrow> nat \<Rightarrow> relay_state \<Rightarrow> relay_state" where
  "tag p name v ttlMs s = s\<lparr>tags := tags s @ [(p, name, v, ttlMs)]\<rparr>"

text \<open>
  Modelled from the spec: the RESERVE branch of section 4.D: the gater, the store, the
  reply's addresses (the relay's own, plus the circuit address of the requester), the tag,
  the reply.
\<close>

definition handleReserve ::
  "relay \<Rightarrow> nat \<Rightarrow> peer_id \<Rightarrow> multiaddr list \<Rightarrow> relay_state \<Rightarrow>
   hop_message list \<times> outcome \<times> relay_state" where
  "handleReserve R now remotePeer remoteAddrs s =
     (if denies (denyInboundRelayReservation (connectionGater R)) remotePeer
      then ([status_reply PERMISSION_DENIED], Closed, s)
      else
        case reserve (init R) now (reservations s) remotePeer remoteAddrs of
          Inl e \<Rightarrow> ([status_reply RESERVATION_REFUSED], Closed, s)
        | Inr (refreshed, r, st) \<Rightarrow>
            let s1 = s\<lparr>reservations := st\<rparr>;
                s2 = tag remotePeer RELAY_SOURCE_TAG 1 (reservationTtl (init R) * 1000) s1
            in ([\<lparr> msg_type = Some STATUS, msg_peer = None,
                    msg_reservation =
                      Some \<lparr> pb_expire = expire r,
                             pb_reservation_addrs = getAddresses R @ [[P2p remotePeer, P2pCircuit]],
                             voucher = None \<rparr>,
                    msg_limit = Some (limit r),
                    msg_status = Some OK \<rparr>],
                Closed, s2))"

text \<open>
  Modelled from the spec: parsing the target of a CONNECT; \<open>None\<close> when \<^verbatim>\<open>peer.id\<close> is
  absent, empty or cannot be decoded.
\<close>

definition decodeTarget :: "relay \<Rightarrow> hop_message \<Rightarrow> (peer_id \<times> multiaddr list) option" where
  "decodeTarget R m =
     (case msg_peer m of
        None \<Rightarrow> None
      | Some pr \<Rightarrow>
          (case pb_id pr of
             None \<Rightarrow> None
           | Some b \<Rightarrow>
               if b = [] then None
               else (case peerIdFromBytes R b of
                       None \<Rightarrow> None
                     | Some t \<Rightarrow> Some (t, pb_addrs pr))))"

text \<open>Modelled from the spec: the smaller of two caps, where zero is unbounded.\<close>

definition cap :: "nat \<Rightarrow> nat \<Rightarrow> nat" where
  "cap x y = (if x = 0 then y else if y = 0 then x else min x y)"

text \<open>
  Modelled from the spec: the effective limit, the minimum of the reservation's limit
  and any configured ceiling.
\<close>

definition effective_limit :: "limit \<Rightarrow> limit option \<Rightarrow> limit" where
  "effective_limit l c =
     (case c of
        None \<Rightarrow> l
      | Some u \<Rightarrow> \<lparr> data = cap (data l) (data u), duration = cap (duration l) (duration u) \<rparr>)"

text \<open>Modelled from the spec: the CONNECT branch of section 4.D, its six steps in order.\<close>

definition handleConnect ::
  "relay \<Rightarrow> nat \<Rightarrow> peer_id \<Rightarrow> hop_message \<Rightarrow> relay_state \<Rightarrow>
   hop_message list \<times> outcome \<times> relay_state" where
  "handleConnect R now remotePeer m s =
     (case decodeTarget R m of
        None \<Rightarrow> ([status_reply MALFORMED_MESSAGE], Closed, s)
      | Some (target, a) \<Rightarrow>
          if target = self R then ([status_reply NO_RESERVATION], Closed, s)
          else
            (case get (reservations s) now target of
               None \<Rightarrow> ([status_reply NO_RESERVATION], Closed, s)
             | Some r \<Rightarrow>
                 if denies (denyOutboundRelayedConnection (connectionGater R)) (remotePeer, target)
                 then ([status_reply PERMISSION_DENIED], Closed, s)
                 else
                   let lim = effective_limit (limit r) (limitCeiling R);
                       s1 = s\<lparr>stopDials := stopDials s @ [(remotePeer, target)]\<rparr>
                   in (case stop_dial R remotePeer target a lim of
                         None \<Rightarrow> ([status_reply CONNECTION_FAILED], Closed, s1)
                       | Some strm \<Rightarrow>
                           ([(status_reply OK)\<lparr>msg_limit := Some lim\<rparr>], Relaying strm lim, s1))))"

text \<open>
  Modelled from the spec: the handler of one inbound HOP stream. It reads one HopMessage
  \<open>m\<close> from the peer \<open>remotePeer\<close> at instant \<open>now\<close> and gives the replies written, how
  the stream is left, and the state of the service afterwards.
\<close>

definition hop_handle ::
  "relay \<Rightarrow> nat \<Rightarrow> peer_id \<Rightarrow> multiaddr list \<Rightarrow> hop_message \<Rightarrow> relay_state \<Rightarrow>
   hop_message list \<times> outcome \<times> relay_state" where
  "hop_handle R now remotePeer remoteAddrs m s =
     (case msg_type m of
        Some RESERVE \<Rightarrow> handleReserve R now remotePeer remoteAddrs s
      | Some CONNECT \<Rightarrow> handleConnect R now remotePeer m s
      | _ \<Rightarrow> ([status_reply UNEXPECTED_MESSAGE], Closed, s))"

text \<open>
  Modelled from the spec: what happens to a running service, one event at a time: a HOP
  stream is handled, the expiry timer fires, or an entry is removed explicitly.
\<close>

datatype service_event =
  Hop nat peer_id "multiaddr list" hop_message | Tick nat | Remove peer_id

fun step :: "relay \<Rightarrow> relay_state \<Rightarrow> service_event \<Rightarrow> relay_state" where
  "step R s (Hop now p a m) = snd (snd (hop_handle R now p a m s))"
| "step R s (Tick now) = s\<lparr>reservations := expiry (reservations s) now\<rparr>"
| "step R s (Remove p) = s\<lparr>reservations := remove (reservations s) p\<rparr>"

definition run :: "relay \<Rightarrow> relay_state \<Rightarrow> service_event list \<Rightarrow> relay_state" where
  "run R s evs = foldl (step R) s evs"

text \<open>Modelled from the spec: a service that has just started.\<close>

definition started :: relay_state where
  "started = \<lparr> reservations = [], tags = [], stopDials = [] \<rparr>"

subsection \<open>The nodes and requests of the test (hop.spec.ts)\<close>

text \<open>
  \<^verbatim>\<open>createNode\<close> gives every node a fresh Ed25519 PeerId and the address
  \<^verbatim>\<open>/ip4/o.o.o.o/tcp/port/p2p/id\<close>, with octet \<open>o = 100 + i\<close> and port \<open>10000 + i\<close> for
  the \<open>i\<close>-th node. The identity of the \<open>i\<close>-th node is a fixed three-byte string here,
  the host part is the octet as one byte, and the decoder accepts the byte strings that
  start with \<open>Qm\<close>.
\<close>

definition createPeerId :: "nat \<Rightarrow> peer_id" where
  "createPeerId i = [CHR ''Q'', CHR ''m'', char_of i]"

definition nodeMultiaddr :: "nat \<Rightarrow> multiaddr" where
  "nodeMultiaddr i = [Ip4 [char_of (100 + i)], Tcp (10000 + i), P2p (createPeerId i)]"

text \<open>\<^verbatim>\<open>mockConnectionGater()\<close>: every predicate is set and answers false.\<close>

definition mockConnectionGater :: connection_gater where
  "mockConnectionGater =
     \<lparr> denyInboundRelayReservation = Some (\<lambda>p. False),
       denyOutboundRelayedConnection = Some (\<lambda>st. False),
       denyInboundRelayedConnection = Some (\<lambda>st. False) \<rparr>"

text \<open>
  The relay node of the test, \<^verbatim>\<open>circuitRelayServer()\<close> with no options on a mock network
  where every dial succeeds and every target accepts.
\<close>

definition relayNode :: relay where
  "relayNode =
     \<lparr> self = createPeerId 1, init = defaults, connectionGater = mockConnectionGater,
       getAddresses = [nodeMultiaddr 1],
       peerIdFromBytes = (\<lambda>b. if take 2 b = ''Qm'' then Some b else None),
       openConnection = (\<lambda>t a. Some 0),
       newStream = (\<lambda>c codec. Some 0),
       stopExchange = (\<lambda>strm m. Some (STOP_STATUS OK)),
       limitCeiling = None \<rparr>"

definition clientNode :: peer_id where
  "clientNode = createPeerId 2"

definition targetNode :: peer_id where
  "targetNode = createPeerId 3"

text \<open>The message that \<^verbatim>\<open>makeReservation\<close> writes.\<close>

definition reserveRequest :: hop_message where
  "reserveRequest =
     \<lparr> msg_type = Some RESERVE, msg_peer = None, msg_reservation = None, msg_limit = None,
       msg_status = None \<rparr>"

text \<open>The message that \<^verbatim>\<open>sendConnect\<close> writes for the target node \<open>i\<close>.\<close>

definition connectRequest :: "nat \<Rightarrow> hop_message" where
  "connectRequest i =
     \<lparr> msg_type = Some CONNECT,
       msg_peer = Some \<lparr> pb_id = Some (createPeerId i), pb_addrs = [nodeMultiaddr i] \<rparr>,
       msg_reservation = None, msg_limit = None, msg_status = None \<rparr>"

text \<open>
  \<^verbatim>\<open>makeReservation(client, relay)\<close> as an event of the relay: node \<open>i\<close> reserves at
  instant \<open>now\<close>.
\<close>

definition makeReservation :: "nat \<Rightarrow> nat \<Rightarrow> service_event" where
  "makeReservation now i = Hop now (createPeerId i) [nodeMultiaddr i] reserveRequest"

text \<open>
  The loop that fills the reservation slots of the relay: \<open>n\<close> fresh nodes, numbered from
  4, reserve one after the other.
\<close>

definition fillSlots :: "nat \<Rightarrow> nat \<Rightarrow> service_event list" where
  "fillSlots now n = map (\<lambda>i. makeReservation now (4 + i)) [0..<n]"

text \<open>The states the tests prepare before the request under test.\<close>

definition DEFAULT_MAX_RESERVATION_STORE_SIZE :: nat where
  "DEFAULT_MAX_RESERVATION_STORE_SIZE = 15"

definition slotsFilled :: relay_state where
  "slotsFilled = run relayNode started (fillSlots 1000 DEFAULT_MAX_RESERVATION_STORE_SIZE)"

definition clientReserved :: relay_state where
  "clientReserved = run relayNode started [makeReservation 1000 2]"

definition bothReserved :: relay_state where
  "bothReserved = run relayNode started [makeReservation 1000 2, makeReservation 1000 3]"

text \<open>The CONNECT with \<^verbatim>\<open>peer: {}\<close> of the test of an invalid request.\<close>

definition invalidConnect :: hop_message where
  "invalidConnect =
     \<lparr> msg_type = Some CONNECT, msg_peer = Some \<lparr> pb_id = None, pb_addrs = [] \<rparr>,
       msg_reservation = None, msg_limit = None, msg_status = None \<rparr>"

text \<open>
  The relay node after \<^verbatim>\<open>denyInboundRelayReservation = Sinon.stub().returns(true)\<close>, after
  the same for \<^verbatim>\<open>denyOutboundRelayedConnection\<close>, and a relay node created with
  \<^verbatim>\<open>reservationTtl: 0\<close>.
\<close>

definition denyingReservations :: relay where
  "denyingReservations =
     relayNode\<lparr>connectionGater :=
       mockConnectionGater\<lparr>denyInboundRelayReservation := Some (\<lambda>p. True)\<rparr>\<rparr>"

definition denyingConnections :: relay where
  "denyingConnections =
     relayNode\<lparr>connectionGater :=
       mockConnectionGater\<lparr>denyOutboundRelayedConnection := Some (\<lambda>st. True)\<rparr>\<rparr>"


section \<open>Properties of the peer-stream wrapper\<close>

subsection \<open>What the callbacks and the attach methods change\<close>

lemma close_closed: "closed s \<Longrightarrow> close s = s"
  by (simp add: close_def)

lemma onEnd_None_fields:
  "onEnd None s = s\<lparr>outboundStream := None, rawOutboundStream := None,
      closeWrites := closeWrites s @ (case rawOutboundStream s of Some r \<Rightarrow> [r] | None \<Rightarrow> [])\<rparr>"
  by (cases "rawOutboundStream s") (simp_all add: onEnd_def Let_def)

lemma onEnd_Some_fields:
  "onEnd (Some e) s = s\<lparr>outboundStream := None, rawOutboundStream := None,
      closeWrites := closeWrites s @ (case rawOutboundStream s of Some r \<Rightarrow> [r] | None \<Rightarrow> []),
      events := events s @ [Close]\<rparr>"
  by (cases "rawOutboundStream s") (simp_all add: onEnd_def Let_def dispatchEvent_def)

lemma attach_first:
  "outboundStream s = None \<Longrightarrow>
   attachOutboundStream s strm =
     (\<lparr>buffer = []\<rparr>, s\<lparr>rawOutboundStream := Some strm, outboundStream := Some \<lparr>buffer = []\<rparr>,
         events := events s @ [StreamOutbound]\<rparr>)"
  by (simp add: attachOutboundStream_def Let_def dispatchEvent_def)

lemma attach_again:
  "outboundStream s = Some p \<Longrightarrow>
   attachOutboundStream s strm =
     (\<lparr>buffer = []\<rparr>, s\<lparr>rawOutboundStream := Some strm, outboundStream := Some \<lparr>buffer = []\<rparr>,
         endedStreams := endedStreams s @ [p],
         closeWrites := closeWrites s @ (case rawOutboundStream s of Some r \<Rightarrow> [r] | None \<Rightarrow> [])\<rparr>)"
  by (simp add: attachOutboundStream_def Let_def end_pushable_def onEnd_None_fields)

subsection \<open>Attaching and detaching the outbound stream\<close>

text \<open>
  Claim C7, as the specification states it, says that a \<^verbatim>\<open>close\<close> event is emitted when
  the outbound stream finally detaches. The \<^verbatim>\<open>onEnd\<close> callback dispatches the event only
  under the guard \<^verbatim>\<open>shouldEmit != null\<close>: a wrapper whose only outbound stream ends without
  an argument (the pushable's \<^verbatim>\<open>end()\<close>, or the consumer's \<^verbatim>\<open>return()\<close>) has lost
  its outbound stream and its raw stream, and the only event it ever dispatched is
  \<^verbatim>\<open>stream:outbound\<close>.
\<close>

theorem outbound_end_without_argument_is_silent:
  "outboundStream (snd (attachOutboundStream (PeerStreams ''QmPeer'' ''/floodsub/1.0.0'') 1))
     = Some \<lparr>buffer = []\<rparr> \<and>
   outboundStream (outbound_ends None
     (snd (attachOutboundStream (PeerStreams ''QmPeer'' ''/floodsub/1.0.0'') 1))) = None \<and>
   rawOutboundStream (outbound_ends None
     (snd (attachOutboundStream (PeerStreams ''QmPeer'' ''/floodsub/1.0.0'') 1))) = None \<and>
   events (outbound_ends None
     (snd (attachOutboundStream (PeerStreams ''QmPeer'' ''/floodsub/1.0.0'') 1))) = [StreamOutbound]"
  by (simp add: PeerStreams_def attachOutboundStream_def Let_def dispatchEvent_def
      outbound_ends_def end_pushable_def onEnd_def)

text \<open>
  Claim C7, amended. Attaching while an outbound stream \<open>p\<close> exists ends \<open>p\<close> (it joins
  the ended pushables and the previous raw stream gets its \<^verbatim>\<open>closeWrite\<close>) and
  dispatches no event at all, so neither \<^verbatim>\<open>close\<close> nor \<^verbatim>\<open>stream:outbound\<close>; attaching
  while none exists dispatches exactly \<^verbatim>\<open>stream:outbound\<close>. In both cases the new pushable
  and the new raw stream are the attached ones afterwards. An attached outbound stream
  that ends with an argument detaches with one \<^verbatim>\<open>close\<close> event, one that ends without an
  argument detaches with no event, and the first \<^verbatim>\<open>close()\<close> of the wrapper detaches it
  with one \<^verbatim>\<open>close\<close> event.
\<close>

theorem attach_outbound_events:
  "(\<forall>p. outboundStream s = Some p \<longrightarrow>
      events (snd (attachOutboundStream s strm)) = events s \<and>
      endedStreams (snd (attachOutboundStream s strm)) = endedStreams s @ [p] \<and>
      closeWrites (snd (attachOutboundStream s strm)) =
        closeWrites s @ (case rawOutboundStream s of Some r \<Rightarrow> [r] | None \<Rightarrow> [])) \<and>
   (outboundStream s = None \<longrightarrow>
      events (snd (attachOutboundStream s strm)) = events s @ [StreamOutbound] \<and>
      endedStreams (snd (attachOutboundStream s strm)) = endedStreams s) \<and>
   outboundStream (snd (attachOutboundStream s strm)) = Some (fst (attachOutboundStream s strm)) \<and>
   rawOutboundStream (snd (attachOutboundStream s strm)) = Some strm \<and>
   (outboundStream s \<noteq> None \<longrightarrow>
      (\<forall>e. outboundStream (outbound_ends (Some e) s) = None \<and>
           events (outbound_ends (Some e) s) = events s @ [Close]) \<and>
      outboundStream (outbound_ends None s) = None \<and>
      events (outbound_ends None s) = events s) \<and>
   (outboundStream s \<noteq> None \<and> \<not> closed s \<longrightarrow>
      outboundStream (close s) = None \<and> events (close s) = events s @ [Close])"
proof -
  have a: "\<forall>p. outboundStream s = Some p \<longrightarrow>
      events (snd (attachOutboundStream s strm)) = events s \<and>
      endedStreams (snd (attachOutboundStream s strm)) = endedStreams s @ [p] \<and>
      closeWrites (snd (attachOutboundStream s strm)) =
        closeWrites s @ (case rawOutboundStream s of Some r \<Rightarrow> [r] | None \<Rightarrow> [])"
    by (simp add: attach_again)
  have b: "outboundStream s = None \<longrightarrow>
      events (snd (attachOutboundStream s strm)) = events s @ [StreamOutbound] \<and>
      endedStreams (snd (attachOutboundStream s strm)) = endedStreams s"
    by (simp add: attach_first)
  have c: "outboundStream (snd (attachOutboundStream s strm)) = Some (fst (attachOutboundStream s strm)) \<and>
      rawOutboundStream (snd (attachOutboundStream s strm)) = Some strm"
    by (cases "outboundStream s") (simp_all add: attach_first attach_again)
  have d: "outboundStream s \<noteq> None \<longrightarrow>
      (\<forall>e. outboundStream (outbound_ends (Some e) s) = None \<and>
           events (outbound_ends (Some e) s) = events s @ [Close]) \<and>
      outboundStream (outbound_ends None s) = None \<and>
      events (outbound_ends None s) = events s"
    by (cases "outboundStream s")
      (simp_all add: outbound_ends_def end_pushable_def onEnd_None_fields onEnd_Some_fields)
  have e: "outboundStream s \<noteq> None \<and> \<not> closed s \<longrightarrow>
      outboundStream (close s) = None \<and> events (close s) = events s @ [Close]"
    by (cases "outboundStream s")
      (simp_all add: close_def Let_def end_pushable_def onEnd_None_fields dispatchEvent_def abort_def)
  from a b c d e show ?thesis by blast
qed

theorem attach_outbound_events_witness:
  "outboundStream (PeerStreams ''QmPeer'' ''/floodsub/1.0.0'') = None \<and>
   events (snd (attachOutboundStream (PeerStreams ''QmPeer'' ''/floodsub/1.0.0'') 1)) = [StreamOutbound] \<and>
   outboundStream (snd (attachOutboundStream (PeerStreams ''QmPeer'' ''/floodsub/1.0.0'') 1)) = Some \<lparr>buffer = []\<rparr> \<and>
   \<not> closed (snd (attachOutboundStream (PeerStreams ''QmPeer'' ''/floodsub/1.0.0'') 1)) \<and>
   events (snd (attachOutboundStream (snd (attachOutboundStream (PeerStreams ''QmPeer'' ''/floodsub/1.0.0'') 1)) 2))
     = [StreamOutbound] \<and>
   closeWrites (snd (attachOutboundStream (snd (attachOutboundStream (PeerStreams ''QmPeer'' ''/floodsub/1.0.0'') 1)) 2))
     = [1] \<and>
   events (outbound_ends (Some (Error ''reset'')) (snd (attachOutboundStream (PeerStreams ''QmPeer'' ''/floodsub/1.0.0'') 1)))
     = [StreamOutbound, Close] \<and>
   events (close (snd (attachOutboundStream (PeerStreams ''QmPeer'' ''/floodsub/1.0.0'') 1)))
     = [StreamOutbound, Close]"
  using attach_outbound_events [of "PeerStreams ''QmPeer'' ''/floodsub/1.0.0''" 1]
    attach_outbound_events [of "snd (attachOutboundStream (PeerStreams ''QmPeer'' ''/floodsub/1.0.0'') 1)" 2]
  by (simp add: PeerStreams_def attach_first)

subsection \<open>Writing\<close>

text \<open>
  Claim C8. \<^verbatim>\<open>write\<close> throws if and only if no outbound stream is attached; with an
  outbound stream attached it returns normally, and the only change is that the message
  is the last element of the outbound queue: a \<^verbatim>\<open>Uint8Array\<close> as the one-element list
  that holds it, a \<^verbatim>\<open>Uint8ArrayList\<close> as it is.
\<close>

theorem write_throws_iff_no_outbound:
  "((\<exists>e. write_ps s d = Inl e) \<longleftrightarrow> outboundStream s = None) \<and>
   (\<forall>p b. outboundStream s = Some p \<longrightarrow>
      write_ps s (Uint8Array b) =
        Inr (s\<lparr>outboundStream := Some (p\<lparr>buffer := buffer p @ [[b]]\<rparr>)\<rparr>)) \<and>
   (\<forall>p l. outboundStream s = Some p \<longrightarrow>
      write_ps s (Uint8ArrayList l) =
        Inr (s\<lparr>outboundStream := Some (p\<lparr>buffer := buffer p @ [l]\<rparr>)\<rparr>))"
  by (cases "outboundStream s") (simp_all add: write_ps_def push_def toUint8ArrayList_def)

theorem write_throws_iff_no_outbound_witness:
  "(\<exists>e. write_ps (PeerStreams ''QmPeer'' ''/floodsub/1.0.0'') (Uint8Array ''ab'') = Inl e) \<and>
   outboundStream (snd (attachOutboundStream (PeerStreams ''QmPeer'' ''/floodsub/1.0.0'') 1))
     = Some \<lparr>buffer = []\<rparr> \<and>
   outboundStream (projr (write_ps (snd (attachOutboundStream (PeerStreams ''QmPeer'' ''/floodsub/1.0.0'') 1))
      (Uint8Array ''ab''))) = Some \<lparr>buffer = [[''ab'']]\<rparr> \<and>
   outboundStream (projr (write_ps (snd (attachOutboundStream (PeerStreams ''QmPeer'' ''/floodsub/1.0.0'') 1))
      (Uint8ArrayList [''a'', ''b'']))) = Some \<lparr>buffer = [[''a'', ''b'']]\<rparr>"
proof -
  have a: "outboundStream (snd (attachOutboundStream (PeerStreams ''QmPeer'' ''/floodsub/1.0.0'') 1))
     = Some \<lparr>buffer = []\<rparr>"
    and n: "outboundStream (PeerStreams ''QmPeer'' ''/floodsub/1.0.0'') = None"
    by (simp_all add: PeerStreams_def attachOutboundStream_def Let_def dispatchEvent_def)
  show ?thesis
    using write_throws_iff_no_outbound [of "PeerStreams ''QmPeer'' ''/floodsub/1.0.0''" "Uint8Array ''ab''"]
      write_throws_iff_no_outbound
        [of "snd (attachOutboundStream (PeerStreams ''QmPeer'' ''/floodsub/1.0.0'') 1)" "Uint8Array ''ab''"]
      a n
    by simp
qed

subsection \<open>Cancelling the inbound iterable\<close>

text \<open>
  Claim C9. The iterable that \<^verbatim>\<open>attachInboundStream\<close> returns is the wrapper's inbound
  stream and watches the wrapper's abort controller. Once the signal has fired, pulling
  from it gives \<open>Done\<close>, whatever the wrapped source holds, and never a thrown error; before
  that it passes on what the source delivers. \<^verbatim>\<open>close()\<close> on a wrapper that was not closed
  before fires the signal, so the iterable ends normally after it.
\<close>

theorem inbound_iterator_returns_on_abort:
  "inboundStream (snd (attachInboundStream s strm)) = Some (fst (attachInboundStream s strm)) \<and>
   (aborted st \<longrightarrow>
      inbound_next st (fst (attachInboundStream s strm)) nxt = Done \<and>
      (\<forall>e. inbound_next st (fst (attachInboundStream s strm)) nxt \<noteq> Throw e)) \<and>
   (\<not> aborted st \<longrightarrow> inbound_next st (fst (attachInboundStream s strm)) nxt = nxt) \<and>
   (\<not> closed s \<longrightarrow>
      aborted (close (snd (attachInboundStream s strm))) \<and>
      inbound_next (close (snd (attachInboundStream s strm))) (fst (attachInboundStream s strm)) nxt = Done)"
proof -
  have r: "returnOnAbort (fst (attachInboundStream s strm))"
    by (simp add: attachInboundStream_def Let_def)
  have i: "inboundStream (snd (attachInboundStream s strm)) = Some (fst (attachInboundStream s strm))"
    by (simp add: attachInboundStream_def Let_def dispatchEvent_def)
  have c: "\<not> closed s \<longrightarrow> aborted (close (snd (attachInboundStream s strm)))"
    by (cases "outboundStream s")
      (simp_all add: attachInboundStream_def close_def Let_def dispatchEvent_def abort_def
        end_pushable_def onEnd_None_fields)
  from r i c show ?thesis
    by (simp add: inbound_next_def abortable_next_def)
qed

theorem inbound_iterator_returns_on_abort_witness:
  "\<not> closed (PeerStreams ''QmPeer'' ''/floodsub/1.0.0'') \<and>
   aborted (close (snd (attachInboundStream (PeerStreams ''QmPeer'' ''/floodsub/1.0.0'') 3))) \<and>
   inbound_next (close (snd (attachInboundStream (PeerStreams ''QmPeer'' ''/floodsub/1.0.0'') 3)))
     (fst (attachInboundStream (PeerStreams ''QmPeer'' ''/floodsub/1.0.0'') 3)) (Yield ''msg'') = Done \<and>
   inbound_next (snd (attachInboundStream (PeerStreams ''QmPeer'' ''/floodsub/1.0.0'') 3))
     (fst (attachInboundStream (PeerStreams ''QmPeer'' ''/floodsub/1.0.0'') 3)) (Yield ''msg'') = Yield ''msg''"
  using inbound_iterator_returns_on_abort [of "PeerStreams ''QmPeer'' ''/floodsub/1.0.0''" 3
      "close (snd (attachInboundStream (PeerStreams ''QmPeer'' ''/floodsub/1.0.0'') 3))" "Yield ''msg''"]
    inbound_iterator_returns_on_abort [of "PeerStreams ''QmPeer'' ''/floodsub/1.0.0''" 3
      "snd (attachInboundStream (PeerStreams ''QmPeer'' ''/floodsub/1.0.0'') 3)" "Yield ''msg''"]
  by (simp add: PeerStreams_def attachInboundStream_def Let_def dispatchEvent_def)

subsection \<open>Closing\<close>

text \<open>
  Claim C10. The first \<^verbatim>\<open>close()\<close> (the wrapper is not yet closed) ends the outbound
  pushable if there is one, fires the abort signal if there is an inbound stream, leaves
  all four stream fields empty, so that the wrapper is neither readable nor writable, and
  appends exactly one \<^verbatim>\<open>close\<close> event to the events dispatched. \<^verbatim>\<open>close()\<close> on a closed
  wrapper returns the state it was given, and closing twice is closing once.
\<close>

theorem close_idempotent:
  "(\<not> closed s \<longrightarrow>
      closed (close s) \<and>
      outboundStream (close s) = None \<and> inboundStream (close s) = None \<and>
      rawOutboundStream (close s) = None \<and> rawInboundStream (close s) = None \<and>
      \<not> isReadable (close s) \<and> \<not> isWritable (close s) \<and>
      endedStreams (close s) = endedStreams s @ (case outboundStream s of Some p \<Rightarrow> [p] | None \<Rightarrow> []) \<and>
      aborted (close s) = (aborted s \<or> inboundStream s \<noteq> None) \<and>
      events (close s) = events s @ [Close]) \<and>
   (closed s \<longrightarrow> close s = s) \<and>
   close (close s) = close s"
proof -
  have first: "closed (close s)"
    by (cases "outboundStream s")
      (simp_all add: close_def Let_def end_pushable_def onEnd_None_fields dispatchEvent_def abort_def)
  have "close (close s) = close s"
    using first by (rule close_closed)
  moreover have "closed s \<longrightarrow> close s = s"
    by (simp add: close_closed)
  moreover have "\<not> closed s \<longrightarrow>
      outboundStream (close s) = None \<and> inboundStream (close s) = None \<and>
      rawOutboundStream (close s) = None \<and> rawInboundStream (close s) = None \<and>
      \<not> isReadable (close s) \<and> \<not> isWritable (close s) \<and>
      endedStreams (close s) = endedStreams s @ (case outboundStream s of Some p \<Rightarrow> [p] | None \<Rightarrow> []) \<and>
      aborted (close s) = (aborted s \<or> inboundStream s \<noteq> None) \<and>
      events (close s) = events s @ [Close]"
    by (cases "outboundStream s")
      (simp_all add: close_def Let_def end_pushable_def onEnd_None_fields dispatchEvent_def abort_def
        isReadable_def isWritable_def)
  ultimately show ?thesis using first by blast
qed

theorem close_idempotent_witness:
  "\<not> closed (snd (attachOutboundStream (PeerStreams ''QmPeer'' ''/floodsub/1.0.0'') 1)) \<and>
   events (close (snd (attachOutboundStream (PeerStreams ''QmPeer'' ''/floodsub/1.0.0'') 1)))
     = [StreamOutbound, Close] \<and>
   \<not> isWritable (close (snd (attachOutboundStream (PeerStreams ''QmPeer'' ''/floodsub/1.0.0'') 1))) \<and>
   closed (close (snd (attachOutboundStream (PeerStreams ''QmPeer'' ''/floodsub/1.0.0'') 1))) \<and>
   close (close (snd (attachOutboundStream (PeerStreams ''QmPeer'' ''/floodsub/1.0.0'') 1))) =
     close (snd (attachOutboundStream (PeerStreams ''QmPeer'' ''/floodsub/1.0.0'') 1))"
  using close_idempotent [of "snd (attachOutboundStream (PeerStreams ''QmPeer'' ''/floodsub/1.0.0'') 1)"]
    close_idempotent [of "close (snd (attachOutboundStream (PeerStreams ''QmPeer'' ''/floodsub/1.0.0'') 1))"]
  by (simp add: PeerStreams_def attach_first)

section \<open>Properties of the reservation store\<close>

lemma overwrite_keys: "map fst (overwrite p r st) = map fst st"
  by (induction st) auto

lemma overwrite_length: "length (overwrite p r st) = length st"
  by (induction st) auto

lemma overwrite_other: "q \<noteq> p \<Longrightarrow> map_of (overwrite p r st) q = map_of st q"
  by (induction st) auto

lemma overwrite_same: "map_of st p \<noteq> None \<Longrightarrow> map_of (overwrite p r st) p = Some r"
  by (induction st) auto

lemma reserve_refresh:
  "map_of st p \<noteq> None \<Longrightarrow>
   reserve cfg now st p a = Inr (True, fresh cfg now p a, overwrite p (fresh cfg now p a) st)"
  by (simp add: reserve_def)

lemma reserve_full:
  "map_of st p = None \<Longrightarrow> maxReservations cfg \<le> length st \<Longrightarrow>
   reserve cfg now st p a = Inl RESOURCE_LIMIT_EXCEEDED"
  by (simp add: reserve_def)


lemma reserve_size:
  "reserve cfg now st p a = Inr (b, r, st') \<Longrightarrow> length st \<le> maxReservations cfg \<Longrightarrow>
   length st' \<le> maxReservations cfg"
  by (auto simp: reserve_def overwrite_length split: if_splits)

section \<open>Properties of the HOP handler\<close>

lemma hop_reserve:
  "msg_type m = Some RESERVE \<Longrightarrow> hop_handle R now p a m s = handleReserve R now p a s"
  by (simp add: hop_handle_def)

lemma hop_connect:
  "msg_type m = Some CONNECT \<Longrightarrow> hop_handle R now p a m s = handleConnect R now p m s"
  by (simp add: hop_handle_def)

lemma handleReserve_denied:
  "denies (denyInboundRelayReservation (connectionGater R)) p \<Longrightarrow>
   handleReserve R now p a s = ([status_reply PERMISSION_DENIED], Closed, s)"
  by (simp add: handleReserve_def)

lemma handleReserve_refused:
  "\<not> denies (denyInboundRelayReservation (connectionGater R)) p \<Longrightarrow>
   reserve (init R) now (reservations s) p a = Inl e \<Longrightarrow>
   handleReserve R now p a s = ([status_reply RESERVATION_REFUSED], Closed, s)"
  by (simp add: handleReserve_def)

lemma handleReserve_admitted:
  "\<not> denies (denyInboundRelayReservation (connectionGater R)) p \<Longrightarrow>
   reserve (init R) now (reservations s) p a = Inr (b, r, st) \<Longrightarrow>
   handleReserve R now p a s =
     ([\<lparr> msg_type = Some STATUS, msg_peer = None,
         msg_reservation =
           Some \<lparr> pb_expire = expire r,
                  pb_reservation_addrs = getAddresses R @ [[P2p p, P2pCircuit]],
                  voucher = None \<rparr>,
         msg_limit = Some (limit r),
         msg_status = Some OK \<rparr>],
      Closed,
      s\<lparr>reservations := st,
        tags := tags s @ [(p, RELAY_SOURCE_TAG, 1, reservationTtl (init R) * 1000)]\<rparr>)"
  by (simp add: handleReserve_def Let_def tag_def)

lemma handleReserve_size:
  "length (reservations s) \<le> maxReservations (init R) \<Longrightarrow>
   length (reservations (snd (snd (handleReserve R now p a s)))) \<le> maxReservations (init R)"
  by (auto simp: handleReserve_def Let_def tag_def dest: reserve_size split: sum.splits)

lemma handleConnect_store:
  "reservations (snd (snd (handleConnect R now p m s))) = reservations s"
  by (simp add: handleConnect_def Let_def split: option.splits prod.splits)

lemma hop_handle_size:
  "length (reservations s) \<le> maxReservations (init R) \<Longrightarrow>
   length (reservations (snd (snd (hop_handle R now p a m s)))) \<le> maxReservations (init R)"
  by (simp add: hop_handle_def handleReserve_size handleConnect_store
      split: option.splits hop_type.splits)

lemma step_size:
  "length (reservations s) \<le> maxReservations (init R) \<Longrightarrow>
   length (reservations (step R s ev)) \<le> maxReservations (init R)"
proof (cases ev)
  case (Hop now p a m)
  assume "length (reservations s) \<le> maxReservations (init R)"
  then show ?thesis using Hop by (simp add: hop_handle_size)
next
  case (Tick now)
  assume "length (reservations s) \<le> maxReservations (init R)"
  moreover have "length (expiry (reservations s) now) \<le> length (reservations s)"
    by (simp add: expiry_def)
  ultimately show ?thesis using Tick by simp
next
  case (Remove p)
  assume "length (reservations s) \<le> maxReservations (init R)"
  moreover have "length (remove (reservations s) p) \<le> length (reservations s)"
    by (simp add: remove_def)
  ultimately show ?thesis using Remove by simp
qed

lemma run_size:
  "length (reservations s) \<le> maxReservations (init R) \<Longrightarrow>
   length (reservations (run R s evs)) \<le> maxReservations (init R)"
  unfolding run_def
  by (induction evs arbitrary: s) (simp_all add: step_size)

text \<open>
  A peer that the gater denies a reservation never enters the store of a service whose
  gater stays the same.
\<close>

lemma map_of_filter_None: "map_of st p = None \<Longrightarrow> map_of (filter P st) p = None"
  by (induction st) (auto split: if_splits)

lemma reserve_other:
  "reserve cfg now st q a = Inr (b, r, st') \<Longrightarrow> q \<noteq> p \<Longrightarrow> map_of st' p = map_of st p"
  by (auto simp: reserve_def overwrite_other map_add_def split: if_splits option.splits)

lemma handleReserve_other:
  "q \<noteq> p \<Longrightarrow>
   map_of (reservations (snd (snd (handleReserve R now q a s)))) p = map_of (reservations s) p"
  by (auto simp: handleReserve_def Let_def tag_def dest: reserve_other split: sum.splits)

lemma hop_handle_denied_absent:
  assumes "denies (denyInboundRelayReservation (connectionGater R)) p"
    and "map_of (reservations s) p = None"
  shows "map_of (reservations (snd (snd (hop_handle R now q a m s)))) p = None"
proof (cases "msg_type m = Some RESERVE")
  case True
  show ?thesis
  proof (cases "q = p")
    case True
    with assms \<open>msg_type m = Some RESERVE\<close> show ?thesis
      by (simp add: hop_reserve handleReserve_denied)
  next
    case False
    with assms \<open>msg_type m = Some RESERVE\<close> show ?thesis
      by (simp add: hop_reserve handleReserve_other)
  qed
next
  case False
  with assms show ?thesis
    by (simp add: hop_handle_def handleConnect_store split: option.splits hop_type.splits)
qed

lemma step_denied_absent:
  assumes "denies (denyInboundRelayReservation (connectionGater R)) p"
    and "map_of (reservations s) p = None"
  shows "map_of (reservations (step R s ev)) p = None"
  using assms
  by (cases ev) (simp_all add: hop_handle_denied_absent expiry_def remove_def map_of_filter_None)

lemma run_denied_absent:
  "denies (denyInboundRelayReservation (connectionGater R)) p \<Longrightarrow>
   map_of (reservations s) p = None \<Longrightarrow>
   map_of (reservations (run R s evs)) p = None"
  unfolding run_def
  by (induction evs arbitrary: s) (simp_all add: step_denied_absent)

subsection \<open>Evaluating the scenarios of the test\<close>

lemma upt15: "[0..<15] = [0, 1, 2, 3, 4, 5, 6, 7, 8, 9, 10, 11, 12, 13, 14 :: nat]"
  by (simp add: upt_rec [of _ "numeral _"] upt_rec [of 0 "numeral _"])

lemmas scenario_defs =
  run_def makeReservation_def relayNode_def started_def defaults_def
  hop_handle_def handleReserve_def reserveRequest_def mockConnectionGater_def denies_def
  reserve_def createPeerId_def nodeMultiaddr_def fresh_def configured_limit_def Let_def tag_def
  clientNode_def targetNode_def connectRequest_def handleConnect_def decodeTarget_def get_def
  status_reply_def stop_dial_def effective_limit_def RELAY_V2_STOP_CODEC_def
  slotsFilled_def clientReserved_def bothReserved_def DEFAULT_MAX_RESERVATION_STORE_SIZE_def

lemma handleConnect_live:
  "decodeTarget R m = Some (t, ta) \<Longrightarrow> t \<noteq> self R \<Longrightarrow> get (reservations s) now t = Some r \<Longrightarrow>
   handleConnect R now p m s =
     (if denies (denyOutboundRelayedConnection (connectionGater R)) (p, t)
      then ([status_reply PERMISSION_DENIED], Closed, s)
      else
        (case stop_dial R p t ta (effective_limit (limit r) (limitCeiling R)) of
           None \<Rightarrow> ([status_reply CONNECTION_FAILED], Closed, s\<lparr>stopDials := stopDials s @ [(p, t)]\<rparr>)
         | Some strm \<Rightarrow>
             ([(status_reply OK)\<lparr>msg_limit := Some (effective_limit (limit r) (limitCeiling R))\<rparr>],
              Relaying strm (effective_limit (limit r) (limitCeiling R)),
              s\<lparr>stopDials := stopDials s @ [(p, t)]\<rparr>)))"
  by (simp add: handleConnect_def Let_def)

lemma slotsFilled_length: "length (reservations slotsFilled) = 15"
  by (simp add: fillSlots_def upt15 scenario_defs)

lemma slotsFilled_first: "map_of (reservations slotsFilled) (createPeerId 4) \<noteq> None"
  by (simp add: fillSlots_def upt15 scenario_defs)

lemma slotsFilled_client: "map_of (reservations slotsFilled) clientNode = None"
  by (simp add: fillSlots_def upt15 scenario_defs)

lemma relayNode_permits:
  "\<not> denies (denyInboundRelayReservation (connectionGater relayNode)) p"
  "\<not> denies (denyOutboundRelayedConnection (connectionGater relayNode)) q"
  by (simp_all add: relayNode_def mockConnectionGater_def denies_def)

lemma request_types:
  "msg_type reserveRequest = Some RESERVE"
  "msg_type (connectRequest i) = Some CONNECT"
  "msg_type invalidConnect = Some CONNECT"
  "msg_type (status_reply st) = Some STATUS"
  by (simp_all add: reserveRequest_def connectRequest_def invalidConnect_def status_reply_def)

lemma relayNode_max: "maxReservations (init relayNode) = 15"
  by (simp add: relayNode_def defaults_def)

lemma decode_target:
  "decodeTarget relayNode (connectRequest 3) = Some (targetNode, [nodeMultiaddr 3])"
  "decodeTarget denyingConnections (connectRequest 3) = Some (targetNode, [nodeMultiaddr 3])"
  by (simp_all add: decodeTarget_def connectRequest_def relayNode_def denyingConnections_def
      targetNode_def createPeerId_def)



lemma bothReserved_get:
  "\<exists>r. get (reservations bothReserved) 1001 targetNode = Some r"
  by (simp add: scenario_defs)

lemma self_not_target: "targetNode \<noteq> self relayNode" "targetNode \<noteq> self denyingConnections"
  by (simp_all add: targetNode_def relayNode_def denyingConnections_def createPeerId_def)

lemma denying:
  "denies (denyInboundRelayReservation (connectionGater denyingReservations)) p"
  "denies (denyOutboundRelayedConnection (connectionGater denyingConnections)) q"
  by (simp_all add: denyingReservations_def denyingConnections_def denies_def relayNode_def
      mockConnectionGater_def)

section \<open>The claims about the HOP service\<close>

text \<open>
  Claim C1. A RESERVE from a peer that has an entry succeeds whatever the size of the
  store: the store's \<^verbatim>\<open>reserve\<close> overwrites that entry, in place, with a fresh one whose
  \<open>expire\<close> is \<open>now + reservationTtl\<close>, every other peer keeps its entry, and the handler
  replies OK. A RESERVE from a peer without an entry, when the store holds
  \<^verbatim>\<open>maxReservations\<close> entries or more, is refused: \<^verbatim>\<open>reserve\<close> fails with
  RESOURCE_LIMIT_EXCEEDED, the handler replies RESERVATION_REFUSED, and the state of the
  service, the store included, is what it was. The handler parts hold when the gater lets
  the request through to the store. Whatever events a service goes through, from a store
  within the bound and so from its start, the store never holds more than
  \<^verbatim>\<open>maxReservations\<close> entries.
\<close>

theorem reserve_refresh_bypasses_cap:
  "(map_of (reservations s) p \<noteq> None \<longrightarrow>
      reserve (init R) now (reservations s) p a =
        Inr (True, fresh (init R) now p a, overwrite p (fresh (init R) now p a) (reservations s)) \<and>
      expire (fresh (init R) now p a) = now + reservationTtl (init R) \<and>
      map_of (overwrite p (fresh (init R) now p a) (reservations s)) p = Some (fresh (init R) now p a) \<and>
      (\<forall>q. q \<noteq> p \<longrightarrow>
         map_of (overwrite p (fresh (init R) now p a) (reservations s)) q = map_of (reservations s) q) \<and>
      map fst (overwrite p (fresh (init R) now p a) (reservations s)) = map fst (reservations s) \<and>
      (msg_type m = Some RESERVE \<and> \<not> denies (denyInboundRelayReservation (connectionGater R)) p \<longrightarrow>
         map msg_status (fst (hop_handle R now p a m s)) = [Some OK] \<and>
         reservations (snd (snd (hop_handle R now p a m s))) =
           overwrite p (fresh (init R) now p a) (reservations s))) \<and>
   (map_of (reservations s) p = None \<and> maxReservations (init R) \<le> length (reservations s) \<longrightarrow>
      reserve (init R) now (reservations s) p a = Inl RESOURCE_LIMIT_EXCEEDED \<and>
      (msg_type m = Some RESERVE \<and> \<not> denies (denyInboundRelayReservation (connectionGater R)) p \<longrightarrow>
         hop_handle R now p a m s = ([status_reply RESERVATION_REFUSED], Closed, s))) \<and>
   (length (reservations s) \<le> maxReservations (init R) \<longrightarrow>
      length (reservations (run R s evs)) \<le> maxReservations (init R)) \<and>
   length (reservations (run R started evs)) \<le> maxReservations (init R)"
proof -
  have refresh: "map_of (reservations s) p \<noteq> None \<longrightarrow>
      reserve (init R) now (reservations s) p a =
        Inr (True, fresh (init R) now p a, overwrite p (fresh (init R) now p a) (reservations s))"
    by (simp add: reserve_refresh)
  have ttl: "expire (fresh (init R) now p a) = now + reservationTtl (init R)"
    by (simp add: fresh_def)
  have same: "map_of (reservations s) p \<noteq> None \<longrightarrow>
      map_of (overwrite p (fresh (init R) now p a) (reservations s)) p = Some (fresh (init R) now p a)"
    by (simp add: overwrite_same)
  have others: "\<forall>q. q \<noteq> p \<longrightarrow>
      map_of (overwrite p (fresh (init R) now p a) (reservations s)) q = map_of (reservations s) q"
    by (simp add: overwrite_other)
  have keys: "map fst (overwrite p (fresh (init R) now p a) (reservations s)) = map fst (reservations s)"
    by (rule overwrite_keys)
  have reply: "map_of (reservations s) p \<noteq> None \<longrightarrow>
      msg_type m = Some RESERVE \<and> \<not> denies (denyInboundRelayReservation (connectionGater R)) p \<longrightarrow>
         map msg_status (fst (hop_handle R now p a m s)) = [Some OK] \<and>
         reservations (snd (snd (hop_handle R now p a m s))) =
           overwrite p (fresh (init R) now p a) (reservations s)"
    by (simp add: hop_reserve handleReserve_admitted [OF _ reserve_refresh])
  have full: "map_of (reservations s) p = None \<and> maxReservations (init R) \<le> length (reservations s) \<longrightarrow>
      reserve (init R) now (reservations s) p a = Inl RESOURCE_LIMIT_EXCEEDED"
    by (simp add: reserve_full)
  have refused: "map_of (reservations s) p = None \<and> maxReservations (init R) \<le> length (reservations s) \<longrightarrow>
      msg_type m = Some RESERVE \<and> \<not> denies (denyInboundRelayReservation (connectionGater R)) p \<longrightarrow>
         hop_handle R now p a m s = ([status_reply RESERVATION_REFUSED], Closed, s)"
    by (simp add: hop_reserve handleReserve_refused [OF _ reserve_full])
  have inv: "length (reservations s) \<le> maxReservations (init R) \<longrightarrow>
      length (reservations (run R s evs)) \<le> maxReservations (init R)"
    by (simp add: run_size)
  have inv0: "length (reservations (run R started evs)) \<le> maxReservations (init R)"
    by (rule run_size) (simp add: started_def)
  from refresh ttl same others keys reply full refused inv inv0 show ?thesis
    by blast
qed

theorem reserve_refresh_bypasses_cap_witness:
  "length (reservations slotsFilled) = maxReservations (init relayNode) \<and>
   map_of (reservations slotsFilled) (createPeerId 4) \<noteq> None \<and>
   map msg_status (fst (hop_handle relayNode 2000 (createPeerId 4) [nodeMultiaddr 4] reserveRequest slotsFilled))
     = [Some OK] \<and>
   map_of (reservations slotsFilled) clientNode = None \<and>
   hop_handle relayNode 2000 clientNode [nodeMultiaddr 2] reserveRequest slotsFilled
     = ([status_reply RESERVATION_REFUSED], Closed, slotsFilled) \<and>
   length (reservations (run relayNode slotsFilled [makeReservation 2000 2])) \<le> 15"
  using reserve_refresh_bypasses_cap [of slotsFilled "createPeerId 4" relayNode 2000 "[nodeMultiaddr 4]"
      reserveRequest "[makeReservation 2000 2]"]
    reserve_refresh_bypasses_cap [of slotsFilled clientNode relayNode 2000 "[nodeMultiaddr 2]"
      reserveRequest "[makeReservation 2000 2]"]
  by (simp add: slotsFilled_length slotsFilled_first slotsFilled_client relayNode_permits
      request_types relayNode_max)




text \<open>
  Claim C3. A first message whose type is neither RESERVE nor CONNECT, a STATUS message
  for one, gets exactly one reply, STATUS UNEXPECTED_MESSAGE, the stream is closed, and
  the state of the service is unchanged.
\<close>

theorem unexpected_message:
  "msg_type m \<noteq> Some RESERVE \<and> msg_type m \<noteq> Some CONNECT \<longrightarrow>
     hop_handle R now p a m s = ([status_reply UNEXPECTED_MESSAGE], Closed, s) \<and>
     length (fst (hop_handle R now p a m s)) = 1"
  by (cases "msg_type m") (auto simp: hop_handle_def split: hop_type.splits)

theorem unexpected_message_witness:
  "msg_type (status_reply MALFORMED_MESSAGE) \<noteq> Some RESERVE \<and>
   msg_type (status_reply MALFORMED_MESSAGE) \<noteq> Some CONNECT \<and>
   hop_handle relayNode 1000 clientNode [nodeMultiaddr 2] (status_reply MALFORMED_MESSAGE) started
     = ([status_reply UNEXPECTED_MESSAGE], Closed, started)"
  using unexpected_message [of "status_reply MALFORMED_MESSAGE" relayNode 1000 clientNode
      "[nodeMultiaddr 2]" started]
  by (simp add: request_types)



text \<open>
  Claim C5. A CONNECT whose \<^verbatim>\<open>peer\<close> is absent, or whose \<^verbatim>\<open>peer.id\<close> is absent, empty
  or not decodable, gets STATUS MALFORMED_MESSAGE and leaves the state as it was, the
  trace of STOP dials included. The reply is the same for every relay with the same
  decoder and for every state: neither the gater, nor the store, nor the dialer has a say.
\<close>

theorem connect_malformed:
  "msg_type m = Some CONNECT \<and>
   (msg_peer m = None \<or>
    (\<exists>pr. msg_peer m = Some pr \<and>
       (pb_id pr = None \<or> pb_id pr = Some [] \<or>
        (\<exists>b. pb_id pr = Some b \<and> peerIdFromBytes R b = None)))) \<longrightarrow>
     hop_handle R now p a m s = ([status_reply MALFORMED_MESSAGE], Closed, s) \<and>
     (\<forall>R' s'. peerIdFromBytes R' = peerIdFromBytes R \<longrightarrow>
        hop_handle R' now p a m s' = ([status_reply MALFORMED_MESSAGE], Closed, s'))"
proof (intro impI)
  assume h: "msg_type m = Some CONNECT \<and>
   (msg_peer m = None \<or>
    (\<exists>pr. msg_peer m = Some pr \<and>
       (pb_id pr = None \<or> pb_id pr = Some [] \<or>
        (\<exists>b. pb_id pr = Some b \<and> peerIdFromBytes R b = None))))"
  have d: "decodeTarget R' m = None" if "peerIdFromBytes R' = peerIdFromBytes R" for R'
    using h that by (auto simp: decodeTarget_def split: option.splits)
  have "hop_handle R' now p a m s' = ([status_reply MALFORMED_MESSAGE], Closed, s')"
    if "peerIdFromBytes R' = peerIdFromBytes R" for R' s'
    using h d [OF that] by (simp add: hop_connect handleConnect_def)
  then show "hop_handle R now p a m s = ([status_reply MALFORMED_MESSAGE], Closed, s) \<and>
     (\<forall>R' s'. peerIdFromBytes R' = peerIdFromBytes R \<longrightarrow>
        hop_handle R' now p a m s' = ([status_reply MALFORMED_MESSAGE], Closed, s'))"
    by blast
qed

theorem connect_malformed_witness:
  "msg_type invalidConnect = Some CONNECT \<and>
   msg_peer invalidConnect = Some \<lparr>pb_id = None, pb_addrs = []\<rparr> \<and>
   hop_handle relayNode 1001 clientNode [nodeMultiaddr 2] invalidConnect bothReserved
     = ([status_reply MALFORMED_MESSAGE], Closed, bothReserved) \<and>
   hop_handle denyingConnections 1001 clientNode [nodeMultiaddr 2] invalidConnect started
     = ([status_reply MALFORMED_MESSAGE], Closed, started) \<and>
   peerIdFromBytes relayNode ''xy'' = None \<and>
   hop_handle relayNode 1001 clientNode [nodeMultiaddr 2]
       (invalidConnect\<lparr>msg_peer := Some \<lparr>pb_id = Some ''xy'', pb_addrs = []\<rparr>\<rparr>) bothReserved
     = ([status_reply MALFORMED_MESSAGE], Closed, bothReserved)"
proof -
  have p: "msg_peer invalidConnect = Some \<lparr>pb_id = None, pb_addrs = []\<rparr>"
    by (simp add: invalidConnect_def)
  have d: "peerIdFromBytes relayNode ''xy'' = None"
    "peerIdFromBytes denyingConnections = peerIdFromBytes relayNode"
    by (simp_all add: relayNode_def denyingConnections_def)
  show ?thesis
    using connect_malformed [of invalidConnect relayNode 1001 clientNode "[nodeMultiaddr 2]" bothReserved]
      connect_malformed [of "invalidConnect\<lparr>msg_peer := Some \<lparr>pb_id = Some ''xy'', pb_addrs = []\<rparr>\<rparr>"
        relayNode 1001 clientNode "[nodeMultiaddr 2]" bothReserved]
    by (simp add: request_types p d)
qed

text \<open>
  Claim C6. A gater predicate denies exactly when it is set and returns true. A RESERVE
  that \<^verbatim>\<open>denyInboundRelayReservation\<close> denies gets STATUS PERMISSION_DENIED and leaves the
  state of the service as it was, so a requester without an entry is left without one;
  and in a service that has run from its start under that gater, whatever the events, a
  peer that the gater denies has no entry in the store. A RESERVE that the gater permits
  gets OK or RESERVATION_REFUSED. A CONNECT to a target other than
  the relay with a live reservation gets PERMISSION_DENIED when
  \<^verbatim>\<open>denyOutboundRelayedConnection\<close> denies, with the state unchanged, and OK or
  CONNECTION_FAILED when it permits. The target side answers a STOP CONNECT with
  PERMISSION_DENIED exactly when \<^verbatim>\<open>denyInboundRelayedConnection\<close> denies.
\<close>

theorem gater_denial:
  "(denies pred x \<longleftrightarrow> (\<exists>f. pred = Some f \<and> f x)) \<and>
   (msg_type m = Some RESERVE \<and> denies (denyInboundRelayReservation (connectionGater R)) p \<longrightarrow>
      hop_handle R now p a m s = ([status_reply PERMISSION_DENIED], Closed, s) \<and>
      (map_of (reservations s) p = None \<longrightarrow>
         map_of (reservations (snd (snd (hop_handle R now p a m s)))) p = None)) \<and>
   (msg_type m = Some RESERVE \<and> \<not> denies (denyInboundRelayReservation (connectionGater R)) p \<longrightarrow>
      map msg_status (fst (hop_handle R now p a m s)) = [Some OK] \<or>
      map msg_status (fst (hop_handle R now p a m s)) = [Some RESERVATION_REFUSED]) \<and>
   (msg_type m = Some CONNECT \<and> decodeTarget R m = Some (t, ta) \<and> t \<noteq> self R \<and>
    get (reservations s) now t = Some r \<and>
    denies (denyOutboundRelayedConnection (connectionGater R)) (p, t) \<longrightarrow>
      hop_handle R now p a m s = ([status_reply PERMISSION_DENIED], Closed, s)) \<and>
   (msg_type m = Some CONNECT \<and> decodeTarget R m = Some (t, ta) \<and> t \<noteq> self R \<and>
    get (reservations s) now t = Some r \<and>
    \<not> denies (denyOutboundRelayedConnection (connectionGater R)) (p, t) \<longrightarrow>
      map msg_status (fst (hop_handle R now p a m s)) = [Some OK] \<or>
      map msg_status (fst (hop_handle R now p a m s)) = [Some CONNECTION_FAILED]) \<and>
   (denies (denyInboundRelayedConnection g) (p, t) \<longrightarrow>
      stop_accept g p t = STOP_STATUS PERMISSION_DENIED) \<and>
   (\<not> denies (denyInboundRelayedConnection g) (p, t) \<longrightarrow> stop_accept g p t = STOP_STATUS OK) \<and>
   (denies (denyInboundRelayReservation (connectionGater R)) p \<longrightarrow>
      map_of (reservations (run R started evs)) p = None)"
proof -
  have d: "denies pred x \<longleftrightarrow> (\<exists>f. pred = Some f \<and> f x)"
    by (cases pred) (simp_all add: denies_def)
  have r1: "msg_type m = Some RESERVE \<and> denies (denyInboundRelayReservation (connectionGater R)) p \<longrightarrow>
      hop_handle R now p a m s = ([status_reply PERMISSION_DENIED], Closed, s) \<and>
      (map_of (reservations s) p = None \<longrightarrow>
         map_of (reservations (snd (snd (hop_handle R now p a m s)))) p = None)"
    by (simp add: hop_reserve handleReserve_denied)
  have r2: "msg_type m = Some RESERVE \<and> \<not> denies (denyInboundRelayReservation (connectionGater R)) p \<longrightarrow>
      map msg_status (fst (hop_handle R now p a m s)) = [Some OK] \<or>
      map msg_status (fst (hop_handle R now p a m s)) = [Some RESERVATION_REFUSED]"
    by (cases "reserve (init R) now (reservations s) p a")
      (auto simp: hop_reserve handleReserve_refused handleReserve_admitted status_reply_def)
  have c1: "msg_type m = Some CONNECT \<and> decodeTarget R m = Some (t, ta) \<and> t \<noteq> self R \<and>
    get (reservations s) now t = Some r \<and>
    denies (denyOutboundRelayedConnection (connectionGater R)) (p, t) \<longrightarrow>
      hop_handle R now p a m s = ([status_reply PERMISSION_DENIED], Closed, s)"
    by (simp add: hop_connect handleConnect_live)
  have c2: "msg_type m = Some CONNECT \<and> decodeTarget R m = Some (t, ta) \<and> t \<noteq> self R \<and>
    get (reservations s) now t = Some r \<and>
    \<not> denies (denyOutboundRelayedConnection (connectionGater R)) (p, t) \<longrightarrow>
      map msg_status (fst (hop_handle R now p a m s)) = [Some OK] \<or>
      map msg_status (fst (hop_handle R now p a m s)) = [Some CONNECTION_FAILED]"
    by (cases "stop_dial R p t ta (effective_limit (limit r) (limitCeiling R))")
      (auto simp: hop_connect handleConnect_live status_reply_def)
  have t1: "(denies (denyInboundRelayedConnection g) (p, t) \<longrightarrow>
      stop_accept g p t = STOP_STATUS PERMISSION_DENIED) \<and>
   (\<not> denies (denyInboundRelayedConnection g) (p, t) \<longrightarrow> stop_accept g p t = STOP_STATUS OK)"
    by (simp add: stop_accept_def)
  have inv: "denies (denyInboundRelayReservation (connectionGater R)) p \<longrightarrow>
      map_of (reservations (run R started evs)) p = None"
    by (simp add: run_denied_absent started_def)
  from d r1 r2 c1 c2 t1 inv show ?thesis by blast
qed

theorem gater_denial_witness:
  "denies (denyInboundRelayReservation (connectionGater denyingReservations)) clientNode \<and>
   map_of (reservations started) clientNode = None \<and>
   hop_handle denyingReservations 1000 clientNode [nodeMultiaddr 2] reserveRequest started
     = ([status_reply PERMISSION_DENIED], Closed, started) \<and>
   map_of (reservations (snd (snd
     (hop_handle denyingReservations 1000 clientNode [nodeMultiaddr 2] reserveRequest started))))
     clientNode = None \<and>
   \<not> denies (denyInboundRelayReservation (connectionGater relayNode)) clientNode \<and>
   map msg_status (fst (hop_handle relayNode 1000 clientNode [nodeMultiaddr 2] reserveRequest started))
     = [Some OK] \<and>
   denies (denyOutboundRelayedConnection (connectionGater denyingConnections)) (clientNode, targetNode) \<and>
   hop_handle denyingConnections 1001 clientNode [nodeMultiaddr 2] (connectRequest 3) bothReserved
     = ([status_reply PERMISSION_DENIED], Closed, bothReserved) \<and>
   \<not> denies (denyOutboundRelayedConnection (connectionGater relayNode)) (clientNode, targetNode) \<and>
   map msg_status (fst (hop_handle relayNode 1001 clientNode [nodeMultiaddr 2] (connectRequest 3) bothReserved))
     = [Some OK] \<and>
   stop_accept (connectionGater relayNode) clientNode targetNode = STOP_STATUS OK \<and>
   map_of (reservations (run denyingReservations started
     [makeReservation 1000 2, makeReservation 1000 3, Tick 1001])) clientNode = None"
proof -
  obtain r where r: "get (reservations bothReserved) 1001 targetNode = Some r"
    using bothReserved_get by blast
  have ok1: "map msg_status (fst (hop_handle relayNode 1000 clientNode [nodeMultiaddr 2] reserveRequest started))
     \<noteq> [Some RESERVATION_REFUSED]"
    by (simp add: scenario_defs)
  have ok2: "map msg_status (fst (hop_handle relayNode 1001 clientNode [nodeMultiaddr 2] (connectRequest 3) bothReserved))
     \<noteq> [Some CONNECTION_FAILED]"
    by (simp add: scenario_defs)
  have e: "map_of (reservations started) clientNode = None"
    by (simp add: started_def)
  have g: "\<not> denies (denyInboundRelayedConnection (connectionGater relayNode)) (clientNode, targetNode)"
    by (simp add: relayNode_def mockConnectionGater_def denies_def)
  show ?thesis
    using gater_denial [of "denyInboundRelayReservation (connectionGater denyingReservations)" clientNode
        reserveRequest denyingReservations clientNode 1000 "[nodeMultiaddr 2]" started
        targetNode "[nodeMultiaddr 3]" r "connectionGater relayNode"
        "[makeReservation 1000 2, makeReservation 1000 3, Tick 1001]"]
      gater_denial [of "denyInboundRelayReservation (connectionGater relayNode)" clientNode
        reserveRequest relayNode clientNode 1000 "[nodeMultiaddr 2]" started
        targetNode "[nodeMultiaddr 3]" r "connectionGater relayNode"]
      gater_denial [of "denyOutboundRelayedConnection (connectionGater denyingConnections)"
        "(clientNode, targetNode)"
        "connectRequest 3" denyingConnections clientNode 1001 "[nodeMultiaddr 2]" bothReserved
        targetNode "[nodeMultiaddr 3]" r "connectionGater relayNode"]
      gater_denial [of "denyOutboundRelayedConnection (connectionGater relayNode)"
        "(clientNode, targetNode)"
        "connectRequest 3" relayNode clientNode 1001 "[nodeMultiaddr 2]" bothReserved
        targetNode "[nodeMultiaddr 3]" r "connectionGater relayNode"]
      r ok1 ok2 e g
    by (simp add: request_types decode_target self_not_target denying relayNode_permits)
qed

end
